theory Spec2Isabelle
  imports Main "HOL-Library.Sublist"
begin

section \<open>The upstream platform and the process state\<close>

text \<open>
  The program is \<^verbatim>\<open>src/backend/server.js\<close>. Its three asynchronous functions
  \<^verbatim>\<open>getCSRFToken\<close>, \<^verbatim>\<open>validateCookieWithRoblox\<close> and \<^verbatim>\<open>refreshCookieWithRoblox\<close>
  talk to the upstream platform through \<^verbatim>\<open>fetch\<close>, read the clock through
  \<^verbatim>\<open>Date.now()\<close> and share the module-level map \<^verbatim>\<open>csrfTokens\<close>. The embedding
  threads one record, the world, through every call: it holds the upstream's behaviour
  (what the \<open>n\<close>-th request is answered with), the clock (what the \<open>n\<close>-th reading
  returns), the token map, and the list of requests issued so far with their answers.
  A JavaScript exception is a value: a function that can throw returns \<open>js_error + 'a\<close>.
\<close>

datatype js_error = Error string

datatype jsval = JNum int | JStr string | JBool bool | JNull

text \<open>What \<^verbatim>\<open>response.json()\<close> delivers for the identity payload: the three
  properties the code reads, each absent (\<open>None\<close>, JavaScript's \<^verbatim>\<open>undefined\<close>) or
  present.\<close>

record user_data =
  ud_id :: "jsval option"
  ud_name :: "jsval option"
  ud_displayName :: "jsval option"

text \<open>
  A response as the code observes it: \<^verbatim>\<open>response.status\<close>,
  \<^verbatim>\<open>response.headers.get('x-csrf-token')\<close> and
  \<^verbatim>\<open>response.headers.get('www-authenticate')\<close> (\<open>None\<close> is \<^verbatim>\<open>null\<close>, the header
  is absent), the outcome of \<^verbatim>\<open>await response.text()\<close> and of
  \<^verbatim>\<open>await response.json()\<close>. Both body readers can reject; \<^verbatim>\<open>json()\<close> can also
  deliver \<^verbatim>\<open>null\<close> (\<open>Inr None\<close>), on which a property access throws.
\<close>

record response =
  status :: nat
  x_csrf_token :: "string option"
  www_authenticate :: "string option"
  body_text :: "js_error + string"
  body_json :: "js_error + user_data option"

text \<open>
  A request as the code writes it: the URL and the options object given to
  \<^verbatim>\<open>fetch\<close>. An option the code leaves out is \<open>None\<close>. A header value is
  \<open>None\<close> when the code passes \<^verbatim>\<open>null\<close> for it.
\<close>

record request =
  url :: string
  http_method :: "string option"
  headers :: "(string \<times> string option) list"
  redirect :: "string option"
  body :: "string option"

record token_data =
  token :: string
  timestamp :: int

record world =
  upstream :: "nat \<Rightarrow> request \<Rightarrow> js_error + response"
  clock :: "nat \<Rightarrow> int"
  csrfTokens :: "string \<rightharpoonup> token_data"
  trace :: "(request \<times> (js_error + response)) list"
  reads :: nat

text \<open>\<^verbatim>\<open>await fetch(url, options)\<close>: the upstream answers the request, knowing how
  many requests came before; the exchange is appended to the trace.\<close>

definition fetch :: "request \<Rightarrow> world \<Rightarrow> (js_error + response) \<times> world" where
  "fetch req w =
     (let res = upstream w (length (trace w)) req
      in (res, w\<lparr>trace := trace w @ [(req, res)]\<rparr>))"

text \<open>\<^verbatim>\<open>Date.now()\<close>, in milliseconds.\<close>

definition Date_now :: "world \<Rightarrow> int \<times> world" where
  "Date_now w = (clock w (reads w), w\<lparr>reads := Suc (reads w)\<rparr>)"

text \<open>The redirect mode node-fetch applies: \<^verbatim>\<open>follow\<close> unless the option is given.\<close>

definition redirect_mode :: "request \<Rightarrow> string" where
  "redirect_mode req = (case redirect req of None \<Rightarrow> ''follow'' | Some m \<Rightarrow> m)"

section \<open>JavaScript helpers\<close>

text \<open>Truthiness of a value that is \<^verbatim>\<open>null\<close> or a string: the empty string is falsy.\<close>

fun truthy :: "string option \<Rightarrow> bool" where
  "truthy None = False"
| "truthy (Some s) = (s \<noteq> [])"

text \<open>\<^verbatim>\<open>String.prototype.includes\<close>.\<close>

fun str_includes :: "string \<Rightarrow> string \<Rightarrow> bool" where
  "str_includes [] sub = (sub = [])"
| "str_includes (x # xs) sub = (prefix sub (x # xs) \<or> str_includes xs sub)"

text \<open>\<^verbatim>\<open>response.ok\<close>.\<close>

definition ok :: "response \<Rightarrow> bool" where
  "ok r = (200 \<le> status r \<and> status r \<le> 299)"

text \<open>A number inside a template literal: its decimal digits.\<close>

definition digit :: "nat \<Rightarrow> char" where
  "digit n = ''0123456789'' ! n"

function string_of_nat :: "nat \<Rightarrow> string" where
  "string_of_nat n = (if n < 10 then [digit n] else string_of_nat (n div 10) @ [digit (n mod 10)])"
  by pat_completeness auto
termination
  by (relation "measure id") auto

declare string_of_nat.simps [simp del]

text \<open>The anti-forgery marker test applied to a 403 body by the validator and the refresher.\<close>

definition csrf_rejection :: "string \<Rightarrow> bool" where
  "csrf_rejection responseText =
     (str_includes responseText ''Token Validation Failed'' \<or> str_includes responseText ''CSRF'')"

section \<open>Token cache\<close>

definition getStoredCSRFToken :: "string \<Rightarrow> world \<Rightarrow> string option \<times> world" where
  "getStoredCSRFToken robloxCookie w =
     (case csrfTokens w robloxCookie of
        None \<Rightarrow> (None, w)
      | Some tokenData \<Rightarrow>
          (case Date_now w of (now, w1) \<Rightarrow>
             if now - timestamp tokenData < 5 * 60 * 1000
             then (Some (token tokenData), w1)
             else (None, w1\<lparr>csrfTokens := (csrfTokens w1)(robloxCookie := None)\<rparr>)))"

definition storeCSRFToken :: "string \<Rightarrow> string \<Rightarrow> world \<Rightarrow> world" where
  "storeCSRFToken robloxCookie tok w =
     (case Date_now w of (now, w1) \<Rightarrow>
        w1\<lparr>csrfTokens := (csrfTokens w1)(robloxCookie \<mapsto> \<lparr>token = tok, timestamp = now\<rparr>)\<rparr>)"

section \<open>Token acquirer\<close>

definition browser_headers :: "(string \<times> string option) list" where
  "browser_headers =
     [(''User-Agent'', Some ''Mozilla/5.0 (Windows NT 10.0; Win64; x64) AppleWebKit/537.36 (KHTML, like Gecko) Chrome/120.0.0.0 Safari/537.36''),
      (''Accept'', Some ''application/json''),
      (''Accept-Language'', Some ''en-US,en;q=0.9''),
      (''Referer'', Some ''https://www.roblox.com/''),
      (''Origin'', Some ''https://www.roblox.com'')]"

record endpoint =
  ep_url :: string
  ep_method :: string

definition csrf_endpoints :: "endpoint list" where
  "csrf_endpoints =
     [\<lparr>ep_url = ''https://auth.roblox.com/v2/login'', ep_method = ''POST''\<rparr>,
      \<lparr>ep_url = ''https://www.roblox.com/home'', ep_method = ''GET''\<rparr>,
      \<lparr>ep_url = ''https://users.roblox.com/v1/users/authenticated'', ep_method = ''GET''\<rparr>,
      \<lparr>ep_url = ''https://itemconfiguration.roblox.com/v1/creations/get-asset-details'',
        ep_method = ''POST''\<rparr>]"

definition csrf_request :: "string \<Rightarrow> endpoint \<Rightarrow> request" where
  "csrf_request robloxCookie e =
     \<lparr>url = ep_url e,
      http_method = Some (ep_method e),
      headers = (''Cookie'', Some (''.ROBLOSECURITY='' @ robloxCookie)) # browser_headers,
      redirect = Some ''manual'',
      body = None\<rparr>"

text \<open>The 403 test of the loop body: the status is 403 and the
  \<^verbatim>\<open>www-authenticate\<close> header is truthy and names the anti-forgery mechanism.\<close>

definition requires_csrf :: "response \<Rightarrow> bool" where
  "requires_csrf response =
     (status response = 403 \<and>
      (case www_authenticate response of
         None \<Rightarrow> False
       | Some wwwAuthenticate \<Rightarrow>
           wwwAuthenticate \<noteq> [] \<and> str_includes wwwAuthenticate ''X-CSRF-TOKEN''))"

text \<open>
  The loop of \<^verbatim>\<open>getCSRFToken\<close> over the endpoints still to try. A throwing
  \<^verbatim>\<open>fetch\<close> is caught inside the loop body and the loop continues. A header value is
  taken only when it is truthy. The 403 test ends in \<^verbatim>\<open>continue\<close>; so does falling
  off the end of the body.
\<close>

fun getCSRFToken_loop :: "string \<Rightarrow> endpoint list \<Rightarrow> world \<Rightarrow> string option \<times> world" where
  "getCSRFToken_loop robloxCookie [] w = (None, w)"
| "getCSRFToken_loop robloxCookie (e # es) w =
     (case fetch (csrf_request robloxCookie e) w of
        (Inl err, w1) \<Rightarrow> getCSRFToken_loop robloxCookie es w1
      | (Inr response, w1) \<Rightarrow>
          (case x_csrf_token response of
             Some csrfToken \<Rightarrow>
               if csrfToken \<noteq> []
               then (Some csrfToken, storeCSRFToken robloxCookie csrfToken w1)
               else if requires_csrf response
                 then getCSRFToken_loop robloxCookie es w1
                 else getCSRFToken_loop robloxCookie es w1
           | None \<Rightarrow>
               if requires_csrf response
               then getCSRFToken_loop robloxCookie es w1
               else getCSRFToken_loop robloxCookie es w1))"

definition getCSRFToken :: "string \<Rightarrow> world \<Rightarrow> string option \<times> world" where
  "getCSRFToken robloxCookie w = getCSRFToken_loop robloxCookie csrf_endpoints w"

section \<open>Session validator\<close>

record validation =
  valid :: bool
  userId :: "jsval option"
  username :: "jsval option"
  displayName :: "jsval option"
  error :: "string option"

definition invalid :: "string \<Rightarrow> validation" where
  "invalid msg =
     \<lparr>valid = False, userId = None, username = None, displayName = None, error = Some msg\<rparr>"

definition identity_request :: "string \<Rightarrow> string \<Rightarrow> request" where
  "identity_request robloxCookie csrfToken =
     \<lparr>url = ''https://users.roblox.com/v1/users/authenticated'',
      http_method = None,
      headers = (''Cookie'', Some (''.ROBLOSECURITY='' @ robloxCookie))
                # (''X-CSRF-TOKEN'', Some csrfToken) # browser_headers,
      redirect = None,
      body = None\<rparr>"

text \<open>
  \<^verbatim>\<open>const userData = await response.json()\<close> followed by the reads of
  \<^verbatim>\<open>userData\<close> and the returned object literal. Reading a property of \<^verbatim>\<open>null\<close>
  throws a TypeError that names the property read first: after the first response that is
  \<^verbatim>\<open>name\<close> (the \<^verbatim>\<open>console.log\<close> of line 209 comes before the object literal),
  after the retry it is \<^verbatim>\<open>id\<close>.
\<close>

definition identity_result :: "string \<Rightarrow> response \<Rightarrow> js_error + validation" where
  "identity_result firstRead response =
     (case body_json response of
        Inl err \<Rightarrow> Inl err
      | Inr None \<Rightarrow>
          Inl (Error (''Cannot read properties of null (reading '' @ [CHR 0x27] @ firstRead
                        @ [CHR 0x27] @ '')''))
      | Inr (Some userData) \<Rightarrow>
          Inr \<lparr>valid = True, userId = ud_id userData, username = ud_name userData,
               displayName = ud_displayName userData, error = None\<rparr>)"

text \<open>\<^verbatim>\<open>getStoredCSRFToken(robloxCookie) || await getCSRFToken(robloxCookie)\<close>.\<close>

definition stored_or_new_token :: "string \<Rightarrow> world \<Rightarrow> string option \<times> world" where
  "stored_or_new_token robloxCookie w =
     (case getStoredCSRFToken robloxCookie w of (stored, w1) \<Rightarrow>
        if truthy stored then (stored, w1) else getCSRFToken robloxCookie w1)"

text \<open>The retry of the identity request, after a 403 whose body carries the marker.\<close>

definition validate_retry :: "string \<Rightarrow> world \<Rightarrow> (js_error + validation) \<times> world" where
  "validate_retry robloxCookie w =
     (case getCSRFToken robloxCookie w of (csrfToken, w1) \<Rightarrow>
        (case csrfToken of
           None \<Rightarrow> (Inr (invalid ''Could not obtain valid CSRF token''), w1)
         | Some tok \<Rightarrow>
             if tok = [] then (Inr (invalid ''Could not obtain valid CSRF token''), w1)
             else
               (case fetch (identity_request robloxCookie tok) w1 of
                  (Inl err, w2) \<Rightarrow> (Inl err, w2)
                | (Inr retryResponse, w2) \<Rightarrow>
                    if \<not> ok retryResponse
                    then (Inr (invalid (''Roblox API returned '' @ string_of_nat (status retryResponse)
                                        @ '' - Cookie may be invalid'')), w2)
                    else (identity_result ''id'' retryResponse, w2))))"

text \<open>The body of the \<^verbatim>\<open>try\<close> block of \<^verbatim>\<open>validateCookieWithRoblox\<close>.\<close>

definition validate_try :: "string \<Rightarrow> world \<Rightarrow> (js_error + validation) \<times> world" where
  "validate_try robloxCookie w =
     (case stored_or_new_token robloxCookie w of (csrfToken, w1) \<Rightarrow>
        (case csrfToken of
           None \<Rightarrow> (Inr (invalid ''Could not obtain CSRF token for validation''), w1)
         | Some tok \<Rightarrow>
             if tok = [] then (Inr (invalid ''Could not obtain CSRF token for validation''), w1)
             else
               (case fetch (identity_request robloxCookie tok) w1 of
                  (Inl err, w2) \<Rightarrow> (Inl err, w2)
                | (Inr response, w2) \<Rightarrow>
                    if status response = 401
                    then (Inr (invalid ''Cookie is invalid or expired''), w2)
                    else if status response = 403
                    then (case body_text response of
                            Inl err \<Rightarrow> (Inl err, w2)
                          | Inr responseText \<Rightarrow>
                              if csrf_rejection responseText
                              then validate_retry robloxCookie w2
                              else (Inr (invalid ''Access forbidden (403). Cookie may have insufficient permissions.''), w2))
                    else if \<not> ok response
                    then (Inr (invalid (''Roblox API returned '' @ string_of_nat (status response))), w2)
                    else (identity_result ''name'' response, w2))))"

text \<open>The function with its \<^verbatim>\<open>catch\<close>: a caught error becomes a result. \<open>Inl\<close> would
  be an exception reaching the caller.\<close>

definition validateCookieWithRoblox :: "string \<Rightarrow> world \<Rightarrow> (js_error + validation) \<times> world" where
  "validateCookieWithRoblox robloxCookie w =
     (case validate_try robloxCookie w of
        (Inl (Error message), w1) \<Rightarrow> (Inr (invalid message), w1)
      | (Inr result, w1) \<Rightarrow> (Inr result, w1))"

section \<open>Session refresher\<close>

record refresh_result =
  refreshed :: bool
  cookie :: "string option"
  warning :: "string option"
  error :: "string option"

definition not_refreshed :: "string \<Rightarrow> refresh_result" where
  "not_refreshed msg = \<lparr>refreshed = False, cookie = None, warning = None, error = Some msg\<rparr>"

definition refreshed_cookie :: "string \<Rightarrow> refresh_result" where
  "refreshed_cookie robloxCookie =
     \<lparr>refreshed = True, cookie = Some robloxCookie, warning = None, error = None\<rparr>"

text \<open>The optimistic result returned when no endpoint confirmed the refresh.\<close>

definition unconfirmed :: "string \<Rightarrow> refresh_result" where
  "unconfirmed robloxCookie =
     \<lparr>refreshed = True, cookie = Some robloxCookie,
      warning = Some ''Refresh confirmation failed but cookie appears valid'', error = None\<rparr>"

record refresh_endpoint =
  re_url :: string
  re_method :: string
  re_body :: "string option"
  re_description :: string

definition refresh_endpoints :: "refresh_endpoint list" where
  \<open>refresh_endpoints =
     [\<lparr>re_url = ''https://economy.roblox.com/v1/user/currency'', re_method = ''GET'',
        re_body = None, re_description = ''Economy endpoint''\<rparr>,
      \<lparr>re_url = ''https://thumbnails.roblox.com/v1/users/avatar'', re_method = ''GET'',
        re_body = None, re_description = ''Avatar endpoint''\<rparr>,
      \<lparr>re_url = ''https://catalog.roblox.com/v1/catalog/items/details'', re_method = ''POST'',
        re_body = Some ''{"items":[{"id":1,"itemType":"Asset"}]}'',
        re_description = ''Catalog endpoint''\<rparr>]\<close>

text \<open>The options of a refresh attempt. The token variable may hold \<^verbatim>\<open>null\<close> after a
  failed renewal. The body is set when the endpoint's is truthy.\<close>

definition refresh_request :: "string \<Rightarrow> string option \<Rightarrow> refresh_endpoint \<Rightarrow> request" where
  "refresh_request robloxCookie csrfToken e =
     \<lparr>url = re_url e,
      http_method = Some (re_method e),
      headers = (''Cookie'', Some (''.ROBLOSECURITY='' @ robloxCookie))
                # (''X-CSRF-TOKEN'', csrfToken) # browser_headers
                @ [(''Content-Type'', Some ''application/json'')],
      redirect = Some ''manual'',
      body = (if truthy (re_body e) then re_body e else None)\<rparr>"

definition success_status :: "nat \<Rightarrow> bool" where
  "success_status s = (s = 200 \<or> s = 201 \<or> s = 204)"

text \<open>
  Lines 231 to 252: the token the loop starts with. \<open>Inl\<close> leaves the function (a
  thrown error or a returned result), \<open>Inr\<close> goes on with the token.
\<close>

definition refresh_token ::
  "string \<Rightarrow> world \<Rightarrow> ((js_error + refresh_result) + string option) \<times> world" where
  "refresh_token robloxCookie w =
     (case getStoredCSRFToken robloxCookie w of (csrfToken, w1) \<Rightarrow>
        (case (if \<not> truthy csrfToken
               then (case validateCookieWithRoblox robloxCookie w1 of
                       (Inl err, w2) \<Rightarrow> (Inl (Inl err), w2)
                     | (Inr validation, w2) \<Rightarrow>
                         if \<not> valid validation
                         then (Inl (Inr (not_refreshed (''Cannot refresh invalid cookie: '' @
                                  (case validation.error validation of
                                     None \<Rightarrow> ''undefined'' | Some msg \<Rightarrow> msg)))), w2)
                         else (case getStoredCSRFToken robloxCookie w2 of
                                 (csrfToken', w3) \<Rightarrow> (Inr csrfToken', w3)))
               else (Inr csrfToken, w1)) of
           (Inl leave, w4) \<Rightarrow> (Inl leave, w4)
         | (Inr csrfToken, w4) \<Rightarrow>
             if \<not> truthy csrfToken
             then (case getCSRFToken robloxCookie w4 of (csrfToken', w5) \<Rightarrow>
                     if \<not> truthy csrfToken'
                     then (Inl (Inr (not_refreshed ''Could not obtain CSRF token for refresh'')), w5)
                     else (Inr csrfToken', w5))
             else (Inr csrfToken, w4)))"

text \<open>How the endpoint loop ends: by a \<^verbatim>\<open>return\<close> inside it, or by running out of
  endpoints, with the value of \<^verbatim>\<open>lastResponse\<close> then.\<close>

datatype loop_exit = Returned refresh_result | Exhausted "response option"

text \<open>
  The loop of \<^verbatim>\<open>refreshCookieWithRoblox\<close> over the endpoints still to try, with the
  variables \<^verbatim>\<open>csrfToken\<close> and \<^verbatim>\<open>lastResponse\<close>. Whatever throws inside the body
  (\<^verbatim>\<open>fetch\<close>, the retry, \<^verbatim>\<open>response.text()\<close>) is caught there and the loop
  continues. \<^verbatim>\<open>lastResponse\<close> is assigned right after the first \<^verbatim>\<open>fetch\<close> of an
  iteration and nowhere else.
\<close>

fun refresh_loop ::
  "string \<Rightarrow> refresh_endpoint list \<Rightarrow> string option \<Rightarrow> response option \<Rightarrow> world
   \<Rightarrow> loop_exit \<times> world" where
  "refresh_loop robloxCookie [] csrfToken lastResponse w = (Exhausted lastResponse, w)"
| "refresh_loop robloxCookie (e # es) csrfToken lastResponse w =
     (case fetch (refresh_request robloxCookie csrfToken e) w of
        (Inl err, w1) \<Rightarrow> refresh_loop robloxCookie es csrfToken lastResponse w1
      | (Inr response, w1) \<Rightarrow>
          if success_status (status response)
          then (Returned (refreshed_cookie robloxCookie), w1)
          else if status response = 403
          then (case body_text response of
                  Inl err \<Rightarrow> refresh_loop robloxCookie es csrfToken (Some response) w1
                | Inr responseText \<Rightarrow>
                    if csrf_rejection responseText
                    then (case getCSRFToken robloxCookie w1 of (csrfToken', w2) \<Rightarrow>
                            if truthy csrfToken'
                            then (case fetch (refresh_request robloxCookie csrfToken' e) w2 of
                                    (Inl err, w3) \<Rightarrow>
                                      refresh_loop robloxCookie es csrfToken' (Some response) w3
                                  | (Inr retryResponse, w3) \<Rightarrow>
                                      if success_status (status retryResponse)
                                      then (Returned (refreshed_cookie robloxCookie), w3)
                                      else refresh_loop robloxCookie es csrfToken' (Some response) w3)
                            else refresh_loop robloxCookie es csrfToken' (Some response) w2)
                    else if status response = 401
                    then (Returned (not_refreshed ''Cookie is invalid or expired''), w1)
                    else refresh_loop robloxCookie es csrfToken (Some response) w1)
          else if status response = 401
          then (Returned (not_refreshed ''Cookie is invalid or expired''), w1)
          else refresh_loop robloxCookie es csrfToken (Some response) w1)"

text \<open>Lines 356 to 371: what is returned once the loop has run out of endpoints.\<close>

definition after_loop :: "string \<Rightarrow> response option \<Rightarrow> refresh_result" where
  "after_loop robloxCookie lastResponse =
     (if (case lastResponse of
            None \<Rightarrow> False
          | Some r \<Rightarrow> status r = 403 \<or> status r = 401)
      then not_refreshed ''Cookie could not be refreshed due to authentication errors''
      else unconfirmed robloxCookie)"

text \<open>The body of the \<^verbatim>\<open>try\<close> block of \<^verbatim>\<open>refreshCookieWithRoblox\<close>.\<close>

definition refresh_try :: "string \<Rightarrow> world \<Rightarrow> (js_error + refresh_result) \<times> world" where
  "refresh_try robloxCookie w =
     (case refresh_token robloxCookie w of
        (Inl leave, w1) \<Rightarrow> (leave, w1)
      | (Inr csrfToken, w1) \<Rightarrow>
          (case refresh_loop robloxCookie refresh_endpoints csrfToken None w1 of
             (Returned result, w2) \<Rightarrow> (Inr result, w2)
           | (Exhausted lastResponse, w2) \<Rightarrow> (Inr (after_loop robloxCookie lastResponse), w2)))"

definition refreshCookieWithRoblox ::
  "string \<Rightarrow> world \<Rightarrow> (js_error + refresh_result) \<times> world" where
  "refreshCookieWithRoblox robloxCookie w =
     (case refresh_try robloxCookie w of
        (Inl (Error message), w1) \<Rightarrow> (Inr (not_refreshed message), w1)
      | (Inr result, w1) \<Rightarrow> (Inr result, w1))"

section \<open>Vocabulary for the properties\<close>

text \<open>
  The acquirer's probes are issued one after the other, so the upstream answers the probe
  of the \<open>i\<close>-th endpoint (counting from 0) knowing that \<open>i\<close> more requests came
  before it. \<open>probe_answer\<close> is that answer, \<open>probe_events\<close> the first \<open>n\<close>
  exchanges as they appear in the trace, and \<open>token_of\<close> the token an answer hands
  out: the value of its \<^verbatim>\<open>x-csrf-token\<close> header when that is a non-empty string.
\<close>

definition probe_answer :: "string \<Rightarrow> endpoint list \<Rightarrow> world \<Rightarrow> nat \<Rightarrow> js_error + response" where
  "probe_answer c es w i = upstream w (length (trace w) + i) (csrf_request c (es ! i))"

definition probe_events :: "string \<Rightarrow> endpoint list \<Rightarrow> world \<Rightarrow> nat \<Rightarrow> (request \<times> (js_error + response)) list" where
  "probe_events c es w n = map (\<lambda>i. (csrf_request c (es ! i), probe_answer c es w i)) [0..<n]"

fun token_of :: "js_error + response \<Rightarrow> string option" where
  "token_of (Inl err) = None"
| "token_of (Inr r) = (if truthy (x_csrf_token r) then x_csrf_token r else None)"

text \<open>
  The requests of a run are told apart by what the code puts into them. The validator's
  identity request is the only one to the identity URL that carries an
  \<^verbatim>\<open>X-CSRF-TOKEN\<close> header; \<open>events_since w w'\<close> are the exchanges added to the trace
  between two worlds, \<open>identity_requests\<close> those among them that are identity requests
  of the session.
\<close>

definition is_identity_request :: "string \<Rightarrow> request \<Rightarrow> bool" where
  "is_identity_request c req =
     (case map_of (headers req) ''X-CSRF-TOKEN'' of
        Some (Some tok) \<Rightarrow> req = identity_request c tok
      | _ \<Rightarrow> False)"

definition events_since :: "world \<Rightarrow> world \<Rightarrow> (request \<times> (js_error + response)) list" where
  "events_since w w' = drop (length (trace w)) (trace w')"

definition identity_requests :: "string \<Rightarrow> world \<Rightarrow> world \<Rightarrow> (request \<times> (js_error + response)) list" where
  "identity_requests c w w' = filter (\<lambda>ev. is_identity_request c (fst ev)) (events_since w w')"

text \<open>
  A refresh attempt is a request to one of the refresher's endpoints; it succeeds when it
  is answered with status 200, 201 or 204. An answer is ambiguous when it neither confirms
  nor denies the session: a thrown error, or a status other than 200, 201, 204, 401, 403.
\<close>

definition is_refresh_request :: "request \<Rightarrow> bool" where
  "is_refresh_request req = (url req \<in> set (map re_url refresh_endpoints))"

definition refresh_success :: "request \<times> (js_error + response) \<Rightarrow> bool" where
  "refresh_success ev =
     (is_refresh_request (fst ev) \<and>
      (case snd ev of Inl err \<Rightarrow> False | Inr r \<Rightarrow> success_status (status r)))"







section \<open>Scripted runs\<close>

text \<open>
  Concrete worlds for the examples: the upstream answers the \<open>n\<close>-th request with the
  \<open>n\<close>-th entry of a script and refuses the connection afterwards; the clock stands
  still at a given reading.
\<close>

definition scripted :: "(js_error + response) list \<Rightarrow> nat \<Rightarrow> request \<Rightarrow> js_error + response" where
  "scripted answers n req =
     (if n < length answers then answers ! n else Inl (Error ''ECONNREFUSED''))"

definition example_world :: "(js_error + response) list \<Rightarrow> (string \<rightharpoonup> token_data) \<Rightarrow> int \<Rightarrow> world" where
  "example_world answers cache now =
     \<lparr>upstream = scripted answers, clock = (\<lambda>n. now), csrfTokens = cache, trace = [], reads = 0\<rparr>"

definition plain_response :: "nat \<Rightarrow> string \<Rightarrow> response" where
  "plain_response s text =
     \<lparr>status = s, x_csrf_token = None, www_authenticate = None,
      body_text = Inr text, body_json = Inr None\<rparr>"

definition token_response :: "nat \<Rightarrow> string \<Rightarrow> response" where
  "token_response s t = (plain_response s [])\<lparr>x_csrf_token := Some t\<rparr>"

definition cache_T1 :: "string \<rightharpoonup> token_data" where
  "cache_T1 = [''S1'' \<mapsto> \<lparr>token = ''T1'', timestamp = 0\<rparr>]"


definition rejecting_world :: world where
  "rejecting_world =
     example_world [Inr (plain_response 403 ''Token Validation Failed''),
                    Inr (token_response 200 ''T2''),
                    Inr (plain_response 403 ''Token Validation Failed'')] cache_T1 7"




definition retry_401_world :: world where
  "retry_401_world =
     example_world [Inr (plain_response 500 []), Inr (plain_response 500 []),
                    Inr (plain_response 403 ''Token Validation Failed''),
                    Inr (token_response 200 ''T2''),
                    Inr (plain_response 401 [])] cache_T1 7"



section \<open>Facts used throughout\<close>

lemmas example_defs = example_world_def scripted_def plain_response_def token_response_def
  cache_T1_def

lemma fetch_eq:
  "fetch req w = (upstream w (length (trace w)) req,
                  w\<lparr>trace := trace w @ [(req, upstream w (length (trace w)) req)]\<rparr>)"
  by (simp add: fetch_def Let_def)

section \<open>Properties of the token cache\<close>

text \<open>
  Claim C2. A lookup returns a token exactly when the map holds an entry for the session
  whose timestamp is less than 5 minutes (300000 ms) before the clock reading of the
  lookup, and then it is that entry's token. An entry that is 5 minutes old or older is
  deleted and the lookup returns \<^verbatim>\<open>null\<close>. Nothing else changes: the map is
  untouched when the lookup returns a token or finds no entry, the entries of other
  sessions stay in every case, and apart from the map and the count of clock readings
  the world after the lookup is the world before it.
\<close>

theorem lookup_returns_token_iff_fresh:
  assumes "getStoredCSRFToken c w = (r, w')"
  shows "((r = Some t) \<longleftrightarrow>
            (\<exists>td. csrfTokens w c = Some td \<and> token td = t \<and>
                  clock w (reads w) - timestamp td < 5 * 60 * 1000))
       \<and> (\<forall>td. csrfTokens w c = Some td \<and> 5 * 60 * 1000 \<le> clock w (reads w) - timestamp td \<longrightarrow>
              r = None \<and> csrfTokens w' = (csrfTokens w)(c := None))
       \<and> (r \<noteq> None \<or> csrfTokens w c = None \<longrightarrow> csrfTokens w' = csrfTokens w)
       \<and> (\<forall>k. k \<noteq> c \<longrightarrow> csrfTokens w' k = csrfTokens w k)
       \<and> w' = w\<lparr>csrfTokens := csrfTokens w', reads := reads w'\<rparr>"
  using assms
  by (cases "csrfTokens w c") (auto simp: getStoredCSRFToken_def Date_now_def split: if_splits)

text \<open>An entry stored at time 0 is returned at 299999 ms and evicted at 300000 ms.\<close>

theorem lookup_returns_token_iff_fresh_witness:
  "fst (getStoredCSRFToken ''S1'' (example_world [] cache_T1 299999)) = Some ''T1''
   \<and> csrfTokens (snd (getStoredCSRFToken ''S1'' (example_world [] cache_T1 299999))) = cache_T1
   \<and> fst (getStoredCSRFToken ''S1'' (example_world [] cache_T1 300000)) = None
   \<and> csrfTokens (snd (getStoredCSRFToken ''S1'' (example_world [] cache_T1 300000))) = Map.empty"
  using lookup_returns_token_iff_fresh
          [of "''S1''" "example_world [] cache_T1 299999"
              "fst (getStoredCSRFToken ''S1'' (example_world [] cache_T1 299999))"
              "snd (getStoredCSRFToken ''S1'' (example_world [] cache_T1 299999))" "''T1''"]
        lookup_returns_token_iff_fresh
          [of "''S1''" "example_world [] cache_T1 300000"
              "fst (getStoredCSRFToken ''S1'' (example_world [] cache_T1 300000))"
              "snd (getStoredCSRFToken ''S1'' (example_world [] cache_T1 300000))" "''T1''"]
  by (simp add: example_defs)

section \<open>Properties of the token acquirer\<close>

lemma loop_continue:
  "token_of (upstream w (length (trace w)) (csrf_request c e)) = None \<Longrightarrow>
   getCSRFToken_loop c (e # es) w = getCSRFToken_loop c es (snd (fetch (csrf_request c e) w))"
  by (auto simp: fetch_eq split: sum.splits option.splits if_splits)

lemma loop_found:
  "token_of (upstream w (length (trace w)) (csrf_request c e)) = Some t \<Longrightarrow>
   getCSRFToken_loop c (e # es) w = (Some t, storeCSRFToken c t (snd (fetch (csrf_request c e) w)))"
  by (auto simp: fetch_eq split: sum.splits option.splits if_splits)


lemma probe_answer_Cons:
  "probe_answer c (e # es) w (Suc i) = probe_answer c es (snd (fetch (csrf_request c e) w)) i"
  by (simp add: probe_answer_def fetch_eq)

lemma probe_answer_0:
  "probe_answer c (e # es) w 0 = upstream w (length (trace w)) (csrf_request c e)"
  by (simp add: probe_answer_def)

lemma probe_events_Cons:
  "probe_events c (e # es) w (Suc n) =
     (csrf_request c e, upstream w (length (trace w)) (csrf_request c e))
       # probe_events c es (snd (fetch (csrf_request c e) w)) n"
  unfolding probe_events_def map_upt_Suc
  by (simp add: probe_answer_Cons probe_answer_0)

declare getCSRFToken_loop.simps(2) [simp del]

lemma loop_first_token:
  "k < length es \<Longrightarrow> \<forall>i<k. token_of (probe_answer c es w i) = None \<Longrightarrow>
   token_of (probe_answer c es w k) = Some t \<Longrightarrow>
   getCSRFToken_loop c es w =
     (Some t, storeCSRFToken c t (w\<lparr>trace := trace w @ probe_events c es w (Suc k)\<rparr>))"
proof (induction es arbitrary: w k)
  case Nil
  then show ?case by simp
next
  case (Cons e es)
  show ?case
  proof (cases k)
    case 0
    with Cons.prems(3) have "token_of (upstream w (length (trace w)) (csrf_request c e)) = Some t"
      by (simp add: probe_answer_0)
    then show ?thesis
      using 0 by (simp add: loop_found fetch_eq probe_events_def probe_answer_0)
  next
    case (Suc k')
    let ?w1 = "snd (fetch (csrf_request c e) w)"
    from Cons.prems(2) Suc have first: "token_of (upstream w (length (trace w)) (csrf_request c e)) = None"
      using probe_answer_0 [of c e es w] by auto
    have earlier: "\<forall>i<k'. token_of (probe_answer c es ?w1 i) = None"
      using Cons.prems(2) Suc by (auto simp: probe_answer_Cons [symmetric])
    have at_k: "token_of (probe_answer c es ?w1 k') = Some t"
      using Cons.prems(3) Suc by (simp add: probe_answer_Cons)
    have "k' < length es" using Cons.prems(1) Suc by simp
    from Cons.IH [OF this earlier at_k] first show ?thesis
      by (simp add: loop_continue Suc probe_events_Cons [of c e es w "Suc k'"] fetch_eq)
  qed
qed

lemma loop_no_token:
  "\<forall>i<length es. token_of (probe_answer c es w i) = None \<Longrightarrow>
   getCSRFToken_loop c es w = (None, w\<lparr>trace := trace w @ probe_events c es w (length es)\<rparr>)"
proof (induction es arbitrary: w)
  case Nil
  then show ?case by (simp add: probe_events_def)
next
  case (Cons e es)
  let ?w1 = "snd (fetch (csrf_request c e) w)"
  from Cons.prems have first: "token_of (upstream w (length (trace w)) (csrf_request c e)) = None"
    using probe_answer_0 [of c e es w] by auto
  have rest: "\<forall>i<length es. token_of (probe_answer c es ?w1 i) = None"
    using Cons.prems by (auto simp: probe_answer_Cons [symmetric])
  from Cons.IH [OF rest] first show ?case
    by (simp add: loop_continue probe_events_Cons [of c e es w "length es"] fetch_eq)
qed


text \<open>
  Claim C3, amended. If the endpoint at position \<open>k\<close> (counting from 0) is the first
  whose response carries a non-empty \<^verbatim>\<open>x-csrf-token\<close> header, the earlier ones
  throwing or answering without one, then the acquirer issues exactly \<open>k + 1\<close> requests,
  stores the header's value for the session with the current clock reading and returns it;
  a lookup whose clock reading is less than 5 minutes later returns the same token.
\<close>

theorem acquire_first_nonempty_header:
  assumes "k < length es"
    and "\<forall>i<k. token_of (probe_answer c es w i) = None"
    and "probe_answer c es w k = Inr r"
    and "x_csrf_token r = Some t"
    and "t \<noteq> []"
  shows "\<exists>w'. getCSRFToken_loop c es w = (Some t, w')
            \<and> trace w' = trace w @ probe_events c es w (Suc k)
            \<and> length (trace w') = length (trace w) + Suc k
            \<and> csrfTokens w' = (csrfTokens w)(c \<mapsto> \<lparr>token = t, timestamp = clock w (reads w)\<rparr>)
            \<and> (clock w (Suc (reads w)) - clock w (reads w) < 5 * 60 * 1000 \<longrightarrow>
                   fst (getStoredCSRFToken c w') = Some t)"
proof -
  from assms(3-5) have "token_of (probe_answer c es w k) = Some t" by simp
  from loop_first_token [OF assms(1,2) this]
  show ?thesis
    by (simp add: storeCSRFToken_def Date_now_def getStoredCSRFToken_def probe_events_def)
qed

text \<open>The scenario of the specification: the first endpoint throws, the second hands out
  \<open>T1\<close>.\<close>

theorem acquire_first_nonempty_header_witness:
  "getCSRFToken ''S1'' (example_world [Inl (Error ''ETIMEDOUT''), Inr (token_response 403 ''T1'')] Map.empty 7)
     = (Some ''T1'',
        \<lparr>upstream = scripted [Inl (Error ''ETIMEDOUT''), Inr (token_response 403 ''T1'')],
         clock = (\<lambda>n. 7),
         csrfTokens = [''S1'' \<mapsto> \<lparr>token = ''T1'', timestamp = 7\<rparr>],
         trace = [(csrf_request ''S1'' (csrf_endpoints ! 0), Inl (Error ''ETIMEDOUT'')),
                  (csrf_request ''S1'' (csrf_endpoints ! 1), Inr (token_response 403 ''T1''))],
         reads = 1\<rparr>)
   \<and> fst (getStoredCSRFToken ''S1''
         (snd (getCSRFToken ''S1''
            (example_world [Inl (Error ''ETIMEDOUT''), Inr (token_response 403 ''T1'')] Map.empty 7))))
       = Some ''T1''"
  using acquire_first_nonempty_header
          [of 1 csrf_endpoints "''S1''"
              "example_world [Inl (Error ''ETIMEDOUT''), Inr (token_response 403 ''T1'')] Map.empty 7"
              "token_response 403 ''T1''" "''T1''"]
  by (simp add: getCSRFToken_def csrf_endpoints_def probe_answer_def probe_events_def
        example_defs getCSRFToken_loop.simps(2) fetch_eq storeCSRFToken_def Date_now_def
        getStoredCSRFToken_def)

text \<open>
  Claim C3 as stated fails when the header is present with an empty value: the test
  \<^verbatim>\<open>if (csrfToken)\<close> treats the empty string as absent. The first endpoint answers
  with an empty \<^verbatim>\<open>x-csrf-token\<close> header; the acquirer goes on through all four
  endpoints, returns \<^verbatim>\<open>null\<close> and stores nothing.
\<close>

theorem acquire_empty_header_counterexample:
  "x_csrf_token (token_response 200 []) \<noteq> None
   \<and> fst (getCSRFToken ''S1'' (example_world [Inr (token_response 200 [])] Map.empty 7)) = None
   \<and> length (trace (snd (getCSRFToken ''S1'' (example_world [Inr (token_response 200 [])] Map.empty 7)))) = 4
   \<and> csrfTokens (snd (getCSRFToken ''S1'' (example_world [Inr (token_response 200 [])] Map.empty 7))) ''S1'' = None"
  by (simp add: getCSRFToken_def csrf_endpoints_def example_defs getCSRFToken_loop.simps(2)
        fetch_eq requires_csrf_def)

lemma token_of_SomeD:
  "token_of a = Some t \<Longrightarrow> \<exists>r. a = Inr r \<and> x_csrf_token r = Some t \<and> t \<noteq> []"
  by (cases a) (auto split: if_splits option.splits elim: truthy.elims)

lemma loop_ends:
  "\<exists>n\<le>length es. getCSRFToken_loop c es w =
       (if n = 0 then None else token_of (probe_answer c es w (n - 1)),
        (if n = 0 \<or> token_of (probe_answer c es w (n - 1)) = None then (\<lambda>v. v)
         else storeCSRFToken c (the (token_of (probe_answer c es w (n - 1)))))
          (w\<lparr>trace := trace w @ probe_events c es w n\<rparr>))
     \<and> (n = length es \<or> token_of (probe_answer c es w (n - 1)) \<noteq> None)
     \<and> (n < length es \<longrightarrow> 0 < n)"
proof (cases "\<exists>i<length es. token_of (probe_answer c es w i) \<noteq> None")
  case False
  then have "\<forall>i<length es. token_of (probe_answer c es w i) = None" by simp
  from loop_no_token [OF this] this show ?thesis
    by (intro exI [of _ "length es"]) (auto simp: probe_events_def)
next
  case True
  define k where "k = (LEAST i. i < length es \<and> token_of (probe_answer c es w i) \<noteq> None)"
  from True have "\<exists>i. i < length es \<and> token_of (probe_answer c es w i) \<noteq> None" by blast
  from LeastI_ex [OF this]
  have k: "k < length es" "token_of (probe_answer c es w k) \<noteq> None"
    unfolding k_def by simp_all
  have before: "\<forall>i<k. token_of (probe_answer c es w i) = None"
  proof (intro allI impI)
    fix i assume "i < k"
    from not_less_Least [OF this [unfolded k_def]] \<open>i < k\<close> k(1)
    show "token_of (probe_answer c es w i) = None" by simp
  qed
  from k(2) obtain t where t: "token_of (probe_answer c es w k) = Some t" by blast
  from loop_first_token [OF k(1) before t] t k(1) show ?thesis
    by (intro exI [of _ "Suc k"]) simp
qed

text \<open>
  Claim C9. A response without the \<^verbatim>\<open>x-csrf-token\<close> header, whatever its status and
  its other headers, makes the acquirer go on with the remaining endpoints. And however
  the acquirer ends, it has either probed every endpoint and returns \<^verbatim>\<open>null\<close>, or the
  last answer it received carries the header, whose value it returns.
\<close>

theorem acquire_ends_only_on_header:
  "(upstream w (length (trace w)) (csrf_request c e) = Inr r \<and> x_csrf_token r = None \<longrightarrow>
      getCSRFToken_loop c (e # es) w
        = getCSRFToken_loop c es (w\<lparr>trace := trace w @ [(csrf_request c e, Inr r)]\<rparr>))
   \<and> (getCSRFToken_loop c es' w = (res, w') \<longrightarrow>
        (\<exists>n\<le>length es'. trace w' = trace w @ probe_events c es' w n
           \<and> (n = length es' \<and> res = None
              \<or> 0 < n \<and> (\<exists>r' t. probe_answer c es' w (n - 1) = Inr r' \<and> x_csrf_token r' = Some t
                             \<and> t \<noteq> [] \<and> res = Some t))))"
proof (intro conjI impI)
  assume "upstream w (length (trace w)) (csrf_request c e) = Inr r \<and> x_csrf_token r = None"
  then show "getCSRFToken_loop c (e # es) w
        = getCSRFToken_loop c es (w\<lparr>trace := trace w @ [(csrf_request c e, Inr r)]\<rparr>)"
    by (simp add: loop_continue fetch_eq)
next
  assume run: "getCSRFToken_loop c es' w = (res, w')"
  from loop_ends [of es' c w] obtain n where n: "n \<le> length es'"
    and eq: "getCSRFToken_loop c es' w =
       (if n = 0 then None else token_of (probe_answer c es' w (n - 1)),
        (if n = 0 \<or> token_of (probe_answer c es' w (n - 1)) = None then (\<lambda>v. v)
         else storeCSRFToken c (the (token_of (probe_answer c es' w (n - 1)))))
          (w\<lparr>trace := trace w @ probe_events c es' w n\<rparr>))"
    and stop: "n = length es' \<or> token_of (probe_answer c es' w (n - 1)) \<noteq> None"
    and pos: "n < length es' \<longrightarrow> 0 < n"
    by blast
  from run eq have res: "res = (if n = 0 then None else token_of (probe_answer c es' w (n - 1)))"
    and tr: "trace w' = trace w @ probe_events c es' w n"
    by (auto simp: storeCSRFToken_def Date_now_def split: if_splits)
  show "\<exists>n\<le>length es'. trace w' = trace w @ probe_events c es' w n
           \<and> (n = length es' \<and> res = None
              \<or> 0 < n \<and> (\<exists>r' t. probe_answer c es' w (n - 1) = Inr r' \<and> x_csrf_token r' = Some t
                             \<and> t \<noteq> [] \<and> res = Some t))"
  proof (cases "res")
    case None
    with res stop pos have "n = length es'" by (auto split: if_splits)
    with tr None n show ?thesis by blast
  next
    case (Some t)
    with res have "0 < n" and "token_of (probe_answer c es' w (n - 1)) = Some t"
      by (auto split: if_splits)
    with token_of_SomeD [OF this(2)] tr n Some show ?thesis by blast
  qed
qed

text \<open>A 200 and a 403 without the header are passed over; the third endpoint's header
  ends the probe after three requests.\<close>

theorem acquire_ends_only_on_header_witness:
  "getCSRFToken_loop ''S1'' csrf_endpoints
      (example_world [Inr (plain_response 200 []), Inr (plain_response 403 []),
                      Inr (token_response 200 ''T1'')] Map.empty 7)
    = getCSRFToken_loop ''S1'' (tl csrf_endpoints)
      ((example_world [Inr (plain_response 200 []), Inr (plain_response 403 []),
                      Inr (token_response 200 ''T1'')] Map.empty 7)
         \<lparr>trace := [(csrf_request ''S1'' (hd csrf_endpoints), Inr (plain_response 200 []))]\<rparr>)
   \<and> fst (getCSRFToken_loop ''S1'' csrf_endpoints
      (example_world [Inr (plain_response 200 []), Inr (plain_response 403 []),
                      Inr (token_response 200 ''T1'')] Map.empty 7)) = Some ''T1''
   \<and> length (trace (snd (getCSRFToken_loop ''S1'' csrf_endpoints
      (example_world [Inr (plain_response 200 []), Inr (plain_response 403 []),
                      Inr (token_response 200 ''T1'')] Map.empty 7)))) = 3"
  using acquire_ends_only_on_header
    [of "example_world [Inr (plain_response 200 []), Inr (plain_response 403 []),
                      Inr (token_response 200 ''T1'')] Map.empty 7"
        "''S1''" "hd csrf_endpoints" "plain_response 200 []" "tl csrf_endpoints"
        csrf_endpoints
        "fst (getCSRFToken_loop ''S1'' csrf_endpoints
      (example_world [Inr (plain_response 200 []), Inr (plain_response 403 []),
                      Inr (token_response 200 ''T1'')] Map.empty 7))"
        "snd (getCSRFToken_loop ''S1'' csrf_endpoints
      (example_world [Inr (plain_response 200 []), Inr (plain_response 403 []),
                      Inr (token_response 200 ''T1'')] Map.empty 7))"]
  by (simp add: csrf_endpoints_def example_defs getCSRFToken_loop.simps(2) fetch_eq
        requires_csrf_def storeCSRFToken_def Date_now_def)

section \<open>Properties of the session validator\<close>

lemma is_identity_request_identity [simp]:
  "is_identity_request c (identity_request c tok)"
  by (simp add: is_identity_request_def identity_request_def)

lemma is_identity_request_csrf [simp]:
  "\<not> is_identity_request c (csrf_request c' e)"
  by (simp add: is_identity_request_def csrf_request_def browser_headers_def)


lemma csrf_request_not_refresh:
  "e \<in> set csrf_endpoints \<Longrightarrow> \<not> is_refresh_request (csrf_request c e)"
  by (auto simp: csrf_endpoints_def is_refresh_request_def refresh_endpoints_def csrf_request_def)

lemma identity_request_not_refresh [simp]:
  "\<not> is_refresh_request (identity_request c tok)"
  by (simp add: is_refresh_request_def refresh_endpoints_def identity_request_def)

lemma probe_events_not_refresh:
  "n \<le> length csrf_endpoints \<Longrightarrow> ev \<in> set (probe_events c csrf_endpoints w n) \<Longrightarrow>
   \<not> is_refresh_request (fst ev)"
  by (auto simp: probe_events_def csrf_request_not_refresh)

lemma loop_trace:
  "\<exists>n\<le>length es. trace (snd (getCSRFToken_loop c es w)) = trace w @ probe_events c es w n"
proof (induction es arbitrary: w)
  case Nil
  show ?case by (simp add: probe_events_def)
next
  case (Cons e es)
  let ?a = "upstream w (length (trace w)) (csrf_request c e)"
  let ?w1 = "snd (fetch (csrf_request c e) w)"
  show ?case
  proof (cases "token_of ?a")
    case None
    from Cons.IH [of ?w1] obtain n where n: "n \<le> length es"
      "trace (snd (getCSRFToken_loop c es ?w1)) = trace ?w1 @ probe_events c es ?w1 n"
      by blast
    have "trace (snd (getCSRFToken_loop c (e # es) w)) = trace w @ probe_events c (e # es) w (Suc n)"
      using None n(2) by (simp add: loop_continue probe_events_Cons fetch_eq)
    with n(1) show ?thesis by (intro exI [of _ "Suc n"]) simp
  next
    case (Some t)
    have "trace (snd (getCSRFToken_loop c (e # es) w)) = trace w @ probe_events c (e # es) w (Suc 0)"
      using Some
      by (simp add: loop_found fetch_eq storeCSRFToken_def Date_now_def
            probe_events_def probe_answer_0)
    then show ?thesis by (intro exI [of _ "Suc 0"]) simp
  qed
qed

lemma getCSRFToken_trace:
  assumes "getCSRFToken c w = (r, w')"
  shows "\<exists>n\<le>length csrf_endpoints. trace w' = trace w @ probe_events c csrf_endpoints w n"
  using loop_trace [of csrf_endpoints c w] assms by (simp add: getCSRFToken_def)




lemma identity_requests_trans:
  "trace w1 = trace w @ evs \<Longrightarrow> trace w2 = trace w1 @ evs' \<Longrightarrow>
   identity_requests c w w2 = identity_requests c w w1 @ identity_requests c w1 w2"
  by (simp add: identity_requests_def events_since_def)
















lemmas run_defs = validateCookieWithRoblox_def validate_try_def validate_retry_def
  stored_or_new_token_def getStoredCSRFToken_def Date_now_def storeCSRFToken_def
  getCSRFToken_def csrf_endpoints_def getCSRFToken_loop.simps(2) fetch_eq
  csrf_rejection_def ok_def invalid_def identity_result_def requires_csrf_def
  identity_requests_def events_since_def







text \<open>
  Claim C8. The acquirer's probes and the refresher's attempts are issued with
  \<^verbatim>\<open>redirect: 'manual'\<close>. The validator's identity request and its retry pass no
  \<^verbatim>\<open>redirect\<close> option, so they follow redirects: the run below issues an identity
  request, a probe and the retry.
\<close>

theorem identity_request_follows_redirects:
  "redirect_mode (csrf_request c e) = ''manual''
   \<and> redirect_mode (refresh_request c t e') = ''manual''
   \<and> redirect_mode (identity_request c tok) = ''follow''
   \<and> map (\<lambda>ev. (url (fst ev), redirect_mode (fst ev)))
         (trace (snd (validateCookieWithRoblox ''S1'' rejecting_world)))
       = [(''https://users.roblox.com/v1/users/authenticated'', ''follow''),
          (''https://auth.roblox.com/v2/login'', ''manual''),
          (''https://users.roblox.com/v1/users/authenticated'', ''follow'')]"
  by (simp add: redirect_mode_def csrf_request_def refresh_request_def identity_request_def
        rejecting_world_def example_defs run_defs)

section \<open>Properties of the session refresher\<close>

lemma refresh_request_is_refresh:
  "e \<in> set refresh_endpoints \<Longrightarrow> is_refresh_request (refresh_request c tok e)"
  by (simp add: is_refresh_request_def refresh_request_def)

lemma probe_events_no_success:
  "n \<le> length csrf_endpoints \<Longrightarrow> filter refresh_success (probe_events c csrf_endpoints w n) = []"
proof -
  assume "n \<le> length csrf_endpoints"
  from probe_events_not_refresh [OF this]
  have "\<forall>ev\<in>set (probe_events c csrf_endpoints w n). \<not> refresh_success ev"
    by (auto simp: refresh_success_def)
  then show ?thesis by (metis filter_empty_conv)
qed

lemma getCSRFToken_no_success:
  assumes "getCSRFToken c w = (tok, w')"
  shows "\<exists>evs. trace w' = trace w @ evs \<and> filter refresh_success evs = []"
  using getCSRFToken_trace [OF assms] probe_events_no_success by blast

lemma refresh_success_simps:
  "refresh_success (req, Inl err) = False"
  "refresh_success (req, Inr r) = (is_refresh_request req \<and> success_status (status r))"
  by (simp_all add: refresh_success_def)

text \<open>One iteration of the loop.\<close>

lemma refresh_loop_step:
  assumes run: "refresh_loop c (e # es) tok lr w = (res, w')"
    and e: "is_refresh_request (refresh_request c tok e)"
    and e': "\<And>t. is_refresh_request (refresh_request c t e)"
  shows "(\<exists>pre ev. res = Returned (refreshed_cookie c) \<and> trace w' = trace w @ pre @ [ev]
            \<and> filter refresh_success pre = [] \<and> refresh_success ev)
       \<or> (\<exists>r. res = Returned (not_refreshed ''Cookie is invalid or expired'')
            \<and> trace w' = trace w @ [(refresh_request c tok e, Inr r)] \<and> status r = 401)
       \<or> (\<exists>tok1 lr1 w1 evs. refresh_loop c es tok1 lr1 w1 = (res, w')
            \<and> trace w1 = trace w @ evs \<and> filter refresh_success evs = []
            \<and> (lr1 = lr \<or> (\<exists>r. lr1 = Some r \<and> status r \<noteq> 401)))"
proof -
  let ?req = "refresh_request c tok e"
  let ?a = "upstream w (length (trace w)) ?req"
  let ?w1 = "w\<lparr>trace := trace w @ [(?req, ?a)]\<rparr>"
  let ?A = "\<exists>pre ev. res = Returned (refreshed_cookie c) \<and> trace w' = trace w @ pre @ [ev]
            \<and> filter refresh_success pre = [] \<and> refresh_success ev"
  let ?B = "\<exists>r. res = Returned (not_refreshed ''Cookie is invalid or expired'')
            \<and> trace w' = trace w @ [(refresh_request c tok e, Inr r)] \<and> status r = 401"
  let ?C = "\<exists>tok1 lr1 w1 evs. refresh_loop c es tok1 lr1 w1 = (res, w')
            \<and> trace w1 = trace w @ evs \<and> filter refresh_success evs = []
            \<and> (lr1 = lr \<or> (\<exists>r. lr1 = Some r \<and> status r \<noteq> 401))"
  have tr1: "trace ?w1 = trace w @ [(?req, ?a)]" by simp
  show ?thesis
  proof (cases ?a)
    case (Inl err)
    with run have "refresh_loop c es tok lr ?w1 = (res, w')" by (simp add: fetch_eq)
    moreover have "filter refresh_success [(?req, ?a)] = []"
      using Inl by (simp add: refresh_success_simps)
    ultimately have ?C using tr1 by blast
    then show ?thesis by blast
  next
    case (Inr r)
    show ?thesis
    proof (cases "success_status (status r)")
      case True
      with run Inr have "res = Returned (refreshed_cookie c)" "w' = ?w1"
        by (simp_all add: fetch_eq)
      moreover have "refresh_success (?req, ?a)"
        using Inr True e by (simp add: refresh_success_simps)
      ultimately have ?A by (intro exI [of _ "[]"] exI [of _ "(?req, ?a)"]) simp
      then show ?thesis by blast
    next
      case False
      then have quiet': "\<not> refresh_success (?req, ?a)"
        using Inr by (simp add: refresh_success_simps)
      then have quiet: "filter refresh_success [(?req, ?a)] = []" by simp
      show ?thesis
      proof (cases "status r = 401")
        case True
        with run Inr False have "res = Returned (not_refreshed ''Cookie is invalid or expired'')"
          "w' = ?w1"
          by (simp_all add: fetch_eq)
        with Inr True have ?B by simp
        then show ?thesis by blast
      next
        case not401: False
        show ?thesis
        proof (cases "status r = 403 \<and> (\<exists>b. body_text r = Inr b \<and> csrf_rejection b)")
          case False
          with run Inr \<open>\<not> success_status (status r)\<close> not401
          have "refresh_loop c es tok (Some r) ?w1 = (res, w')"
            by (auto simp: fetch_eq split: sum.splits if_splits)
          with tr1 quiet not401 have ?C by blast
          then show ?thesis by blast
        next
          case True
          then obtain b where b: "status r = 403" "body_text r = Inr b" "csrf_rejection b"
            by blast
          obtain tok' w2 where acq: "getCSRFToken c ?w1 = (tok', w2)"
            by (cases "getCSRFToken c ?w1")
          from getCSRFToken_no_success [OF acq] obtain evs
            where tr2: "trace w2 = trace ?w1 @ evs" and q2: "filter refresh_success evs = []"
            by blast
          show ?thesis
          proof (cases "truthy tok'")
            case False
            with run Inr \<open>\<not> success_status (status r)\<close> b acq
            have "refresh_loop c es tok' (Some r) w2 = (res, w')"
              by (simp add: fetch_eq)
            moreover have "trace w2 = trace w @ ((?req, ?a) # evs)" using tr2 by simp
            moreover have "filter refresh_success ((?req, ?a) # evs) = []"
              using quiet' q2 by simp
            ultimately have ?C using not401 by blast
            then show ?thesis by blast
          next
            case True
            let ?req' = "refresh_request c tok' e"
            let ?a' = "upstream w2 (length (trace w2)) ?req'"
            let ?w3 = "w2\<lparr>trace := trace w2 @ [(?req', ?a')]\<rparr>"
            have tr3: "trace ?w3 = trace w @ ((?req, ?a) # evs) @ [(?req', ?a')]"
              using tr2 by simp
            have q3: "filter refresh_success ((?req, ?a) # evs) = []"
              using quiet' q2 by simp
            show ?thesis
            proof (cases "refresh_success (?req', ?a')")
              case True
              then obtain r' where r': "?a' = Inr r'" "success_status (status r')"
                by (cases ?a') (simp_all add: refresh_success_simps)
              with run Inr \<open>\<not> success_status (status r)\<close> b acq \<open>truthy tok'\<close>
              have "res = Returned (refreshed_cookie c)" "w' = ?w3"
                by (simp_all add: fetch_eq)
              with tr3 q3 True have ?A by blast
              then show ?thesis by blast
            next
              case False
              with e' [of tok'] have "case ?a' of Inl err \<Rightarrow> True | Inr r' \<Rightarrow> \<not> success_status (status r')"
                by (cases ?a') (simp_all add: refresh_success_simps)
              with run Inr \<open>\<not> success_status (status r)\<close> b acq \<open>truthy tok'\<close>
              have "refresh_loop c es tok' (Some r) ?w3 = (res, w')"
                by (simp add: fetch_eq split: sum.splits)
              moreover have "trace ?w3 = trace w @ (((?req, ?a) # evs) @ [(?req', ?a')])"
                using tr3 by simp
              moreover have "filter refresh_success (((?req, ?a) # evs) @ [(?req', ?a')]) = []"
                using quiet' q2 False by simp
              ultimately have ?C using not401 by blast
              then show ?thesis by blast
            qed
          qed
        qed
      qed
    qed
  qed
qed

declare refresh_loop.simps(2) [simp del]

lemma refresh_results_differ [simp]:
  "not_refreshed msg \<noteq> refreshed_cookie c"
  "refreshed_cookie c \<noteq> not_refreshed msg"
  by (simp_all add: not_refreshed_def refreshed_cookie_def)

lemma loop_last_not_401:
  "set es \<subseteq> set refresh_endpoints \<Longrightarrow>
   refresh_loop c es tok lr w = (Exhausted lr', w') \<Longrightarrow>
   \<forall>r. lr = Some r \<longrightarrow> status r \<noteq> 401 \<Longrightarrow>
   \<forall>r. lr' = Some r \<longrightarrow> status r \<noteq> 401"
proof (induction es arbitrary: tok lr w)
  case Nil
  then show ?case by simp
next
  case (Cons e es)
  from Cons.prems(1) have e: "\<And>t. is_refresh_request (refresh_request c t e)"
    by (simp add: refresh_request_is_refresh)
  from refresh_loop_step [OF Cons.prems(2) e e]
  obtain tok1 lr1 w1 where next_call: "refresh_loop c es tok1 lr1 w1 = (Exhausted lr', w')"
    and lr1: "lr1 = lr \<or> (\<exists>r. lr1 = Some r \<and> status r \<noteq> 401)"
    by auto
  from lr1 Cons.prems(3) have "\<forall>r. lr1 = Some r \<longrightarrow> status r \<noteq> 401" by auto
  with Cons.IH [OF _ next_call] Cons.prems(1) show ?case by simp
qed







lemmas refresh_defs = refreshCookieWithRoblox_def refresh_try_def refresh_token_def
  refresh_loop.simps(2) refresh_endpoints_def after_loop_def success_status_def
  refreshed_cookie_def not_refreshed_def unconfirmed_def
















text \<open>
  Claim C10. When the loop over the refresher's endpoints runs out, \<^verbatim>\<open>lastResponse\<close>
  never has status 401, so the result after the loop is the authentication-errors failure
  exactly when \<^verbatim>\<open>lastResponse\<close> has status 403: the test for 401 there never
  decides. The reasons: a first attempt answered with 401 returns from inside the loop,
  and the response of a retry, whatever its status, is not stored in \<^verbatim>\<open>lastResponse\<close>.
\<close>

theorem last_response_never_401:
  "(refresh_loop c refresh_endpoints tok None w = (Exhausted lastResponse, w') \<longrightarrow>
      (\<forall>r. lastResponse = Some r \<longrightarrow> status r \<noteq> 401)
      \<and> after_loop c lastResponse =
          (if (\<exists>r. lastResponse = Some r \<and> status r = 403)
           then not_refreshed ''Cookie could not be refreshed due to authentication errors''
           else unconfirmed c))
   \<and> (fetch (refresh_request c tok e) w = (Inr r1, w1) \<and> status r1 = 401 \<longrightarrow>
        refresh_loop c (e # es) tok lr w
          = (Returned (not_refreshed ''Cookie is invalid or expired''), w1))
   \<and> (fetch (refresh_request c tok e) w = (Inr r1, w1) \<and> status r1 = 403
        \<and> body_text r1 = Inr b \<and> csrf_rejection b
        \<and> getCSRFToken c w1 = (Some t', w2) \<and> t' \<noteq> []
        \<and> fetch (refresh_request c (Some t') e) w2 = (Inr r2, w3)
        \<and> \<not> success_status (status r2) \<longrightarrow>
        refresh_loop c (e # es) tok lr w = refresh_loop c es (Some t') (Some r1) w3)"
proof (intro conjI impI)
  assume run: "refresh_loop c refresh_endpoints tok None w = (Exhausted lastResponse, w')"
  from loop_last_not_401 [OF _ run]
  show no401: "\<forall>r. lastResponse = Some r \<longrightarrow> status r \<noteq> 401" by simp
  then show "after_loop c lastResponse =
          (if (\<exists>r. lastResponse = Some r \<and> status r = 403)
           then not_refreshed ''Cookie could not be refreshed due to authentication errors''
           else unconfirmed c)"
    by (cases lastResponse) (auto simp: after_loop_def unconfirmed_def)
next
  assume "fetch (refresh_request c tok e) w = (Inr r1, w1) \<and> status r1 = 401"
  then show "refresh_loop c (e # es) tok lr w
          = (Returned (not_refreshed ''Cookie is invalid or expired''), w1)"
    by (simp add: refresh_loop.simps(2) success_status_def)
next
  assume "fetch (refresh_request c tok e) w = (Inr r1, w1) \<and> status r1 = 403
        \<and> body_text r1 = Inr b \<and> csrf_rejection b
        \<and> getCSRFToken c w1 = (Some t', w2) \<and> t' \<noteq> []
        \<and> fetch (refresh_request c (Some t') e) w2 = (Inr r2, w3)
        \<and> \<not> success_status (status r2)"
  then show "refresh_loop c (e # es) tok lr w = refresh_loop c es (Some t') (Some r1) w3"
    by (simp add: refresh_loop.simps(2) success_status_def)
qed

text \<open>The last endpoint answers 403 with the marker and its retry 401: the loop runs
  out with the 403 as last response.\<close>

theorem last_response_never_401_witness:
  "fst (refresh_loop ''S1'' refresh_endpoints (Some ''T1'') None retry_401_world)
     = Exhausted (Some (plain_response 403 ''Token Validation Failed''))
   \<and> map (\<lambda>ev. case snd ev of Inl err \<Rightarrow> 0 | Inr r \<Rightarrow> status r)
         (trace (snd (refresh_loop ''S1'' refresh_endpoints (Some ''T1'') None retry_401_world)))
       = [500, 500, 403, 200, 401]
   \<and> fst (refreshCookieWithRoblox ''S1'' retry_401_world)
       = Inr (not_refreshed ''Cookie could not be refreshed due to authentication errors'')"
  using last_response_never_401
    [of "''S1''" "Some ''T1''" retry_401_world
        "Some (plain_response 403 ''Token Validation Failed'')"
        "snd (refresh_loop ''S1'' refresh_endpoints (Some ''T1'') None retry_401_world)"]
  by (simp add: retry_401_world_def example_defs run_defs refresh_defs refresh_request_def)

end
